theory Spec2Isabelle
  imports Main "HOL-Library.Sublist" "HOL-Library.AList"
begin

section \<open>Python values used by the inventory code\<close>

text \<open>
  Exceptions are values. \<open>NoTitleException\<close> is the class \<open>inventory.py\<close> raises (it
  imports it from the \<open>errors\<close> module, and it is what the specification calls
  \<open>NoTitleFound\<close>); the others are built-in exceptions the modelled statements can raise.
  \<open>texts.py\<close> does not import \<open>NoTitleException\<close>, so its two
  \<open>raise NoTitleException(...)\<close> statements raise \<open>NameError\<close>.
\<close>

datatype error = NoTitleException | ValueError | TypeError | AttributeError | NameError

definition ebind :: "error + 'a \<Rightarrow> ('a \<Rightarrow> error + 'b) \<Rightarrow> error + 'b" where
  "ebind r f = (case r of Inl e \<Rightarrow> Inl e | Inr x \<Rightarrow> f x)"

fun map_err :: "('a \<Rightarrow> error + 'b) \<Rightarrow> 'a list \<Rightarrow> error + 'b list" where
  "map_err f [] = Inr []"
| "map_err f (x # xs) = ebind (f x) (\<lambda>y. ebind (map_err f xs) (\<lambda>ys. Inr (y # ys)))"

text \<open>
  \<open>str.replace(old, new)\<close>: every non-overlapping occurrence of \<open>old\<close>, found from the
  left, is replaced; an empty \<open>old\<close> matches before every character and at the end.
\<close>

fun replace :: "string \<Rightarrow> string \<Rightarrow> string \<Rightarrow> string" where
  "replace [] old new = (if old = [] then new else [])"
| "replace (c # cs) old new =
     (if old = [] then new @ c # replace cs old new
      else if prefix old (c # cs) then new @ replace (drop (length old) (c # cs)) old new
      else c # replace cs old new)"

text \<open>\<open>str.split(sep)\<close> for a one-character separator, and \<open>sep.join(parts)\<close>.\<close>

fun split_sep :: "char \<Rightarrow> string \<Rightarrow> string list" where
  "split_sep sep [] = [[]]"
| "split_sep sep (c # cs) =
     (if c = sep then [] # split_sep sep cs
      else (case split_sep sep cs of [] \<Rightarrow> [[c]] | w # ws \<Rightarrow> (c # w) # ws))"

fun join :: "string \<Rightarrow> string list \<Rightarrow> string" where
  "join sep [] = []"
| "join sep [x] = x"
| "join sep (x # y # ys) = x @ sep @ join sep (y # ys)"

text \<open>\<open>os.path.basename\<close>: what follows the last slash.\<close>

definition basename :: "string \<Rightarrow> string" where
  "basename p = rev (takeWhile (\<lambda>c. c \<noteq> CHR ''/'') (rev p))"

text \<open>
  A dictionary is an association list in iteration (insertion) order with distinct keys:
  \<open>d[k] = v\<close> overwrites the value of a key already present and keeps its position, and
  appends a new key at the end.
\<close>

definition dict_set :: "('k \<times> 'v) list \<Rightarrow> 'k \<Rightarrow> 'v \<Rightarrow> ('k \<times> 'v) list" where
  "dict_set d k v = AList.update k v d"

definition dict_keys :: "('k \<times> 'v) list \<Rightarrow> 'k list" where
  "dict_keys d = map fst d"

section \<open>The element tree\<close>

text \<open>
  The part of \<open>xml.etree.ElementTree.Element\<close> the code reads: tag, attributes, text
  (\<open>None\<close> for an element without character data) and children in document order.
  \<open>find\<close> and \<open>findall\<close> are only ever called with a qualified tag name, which selects
  among the direct children.
\<close>

datatype element = Element (etag: string) (eattrib: "(string \<times> string) list")
  (etext: "string option") (echildren: "element list")

definition xml_get :: "element \<Rightarrow> string \<Rightarrow> string option" where
  "xml_get e k = map_of (eattrib e) k"

definition xml_findall :: "element \<Rightarrow> string \<Rightarrow> element list" where
  "xml_findall e t = filter (\<lambda>c. etag c = t) (echildren e)"

definition xml_find :: "element \<Rightarrow> string \<Rightarrow> element option" where
  "xml_find e t = (case xml_findall e t of [] \<Rightarrow> None | c # _ \<Rightarrow> Some c)"

definition cts :: "string \<Rightarrow> string" where
  "cts t = ''{http://chs.harvard.edu/xmlns/cts3/ti}'' @ t"

definition xml_lang :: string where
  "xml_lang = ''{http://www.w3.org/XML/1998/namespace}lang''"

section \<open>texts.py\<close>

subsection \<open>shortcut_namespace and replace_all\<close>

text \<open>
  \<open>shortcut_namespace = re.compile("([a-zA-Z0-9]+\:)")\<close> is only used through
  \<open>len(shortcut_namespace.findall(string))\<close>. A match is a maximal run of ASCII letters
  and digits followed by a colon, so the number of non-overlapping matches is the number
  of colons whose preceding character is a letter or a digit. \<open>count_shortcuts prev s\<close>
  scans \<open>s\<close>, \<open>prev\<close> telling whether the character before is one.
\<close>

definition is_alnum :: "char \<Rightarrow> bool" where
  "is_alnum c = (let n = (of_char c :: nat) in
      (48 \<le> n \<and> n \<le> 57) \<or> (65 \<le> n \<and> n \<le> 90) \<or> (97 \<le> n \<and> n \<le> 122))"

fun count_shortcuts :: "bool \<Rightarrow> string \<Rightarrow> nat" where
  "count_shortcuts prev [] = 0"
| "count_shortcuts prev (c # cs) =
     (if c = CHR '':'' \<and> prev then 1 else 0) + count_shortcuts (is_alnum c) cs"

definition shortcut_namespace_findall_len :: "string \<Rightarrow> nat" where
  "shortcut_namespace_findall_len s = count_shortcuts False s"

definition replace_all :: "string \<Rightarrow> (string \<times> string) list \<Rightarrow> string" where
  "replace_all haystack needles = foldl (\<lambda>h (i, v). replace h i v) haystack needles"

subsection \<open>Citation\<close>

text \<open>
  The messages of the four \<open>Error\<close> objects the citation test builds, with the values
  that are formatted into them:
  \<^item> \<open>NoShortcuts name original level\<close>: "\<open>name\<close>'s attribute for Citation Level \<open>level\<close>
    has no namespaces shortcuts like 'tei:' (\<open>original\<close>)";
  \<^item> \<open>UnboundShortcuts name original level\<close>: "\<open>name\<close>'s attribute for Citation Level
    \<open>level\<close> has namespaces shortcuts with no bindings (\<open>original\<close>)";
  \<^item> \<open>ImpossibleToParse\<close>: "Impossible to parse given element";
  \<^item> \<open>UnableToRunXpath xpath\<close>: "Unable to run xpath \<open>xpath\<close>".
\<close>

datatype warning =
    NoShortcuts string "string option" nat
  | UnboundShortcuts string "string option" nat
  | ImpossibleToParse
  | UnableToRunXpath string

text \<open>
  \<open>label\<close>, \<open>xpath\<close> and \<open>scope\<close> are read with \<open>xml.get\<close>, which gives \<open>None\<close> for an
  attribute the element does not carry.
\<close>

datatype Citation = Citation (cit_label: "string option") (cit_xpath: "string option")
  (cit_scope: "string option") (cit_namespaces: "(string \<times> string) list") (cit_strict: bool)
  (cit_children: "Citation option")

function Citation_init :: "element \<Rightarrow> (string \<times> string) list \<Rightarrow> bool \<Rightarrow> Citation" where
  "Citation_init xml namespaces strict =
     Citation (xml_get xml ''label'') (xml_get xml ''xpath'') (xml_get xml ''scope'')
       namespaces strict
       (case xml_find xml (cts ''citation'') of
          None \<Rightarrow> None
        | Some children \<Rightarrow> Some (Citation_init children namespaces strict))"
  by pat_completeness auto
termination
proof (relation "measure (\<lambda>(xml, namespaces, strict). size xml)")
  show "wf (measure (\<lambda>(xml, namespaces, strict). size xml))"
    by simp
next
  fix xml :: element and namespaces :: "(string \<times> string) list" and strict :: bool
    and children :: element
  assume "xml_find xml (cts ''citation'') = Some children"
  then obtain cs where
    "filter (\<lambda>c. etag c = cts ''citation'') (echildren xml) = children # cs"
    by (auto simp: xml_find_def xml_findall_def split: list.splits)
  then have "children \<in> set (filter (\<lambda>c. etag c = cts ''citation'') (echildren xml))"
    by simp
  then have "children \<in> set (echildren xml)"
    by simp
  then have "size children \<le> size_list size (echildren xml)"
    by (simp add: size_list_estimation')
  then have "size children < size xml"
    by (cases xml) simp
  then show "((children, namespaces, strict), (xml, namespaces, strict))
      \<in> measure (\<lambda>(xml, namespaces, strict). size xml)"
    by simp
qed

declare Citation_init.simps [simp del]

definition n_placeholder :: string where
  "n_placeholder = [CHR ''@'', CHR ''n'', CHR ''='', CHR 0x27, CHR ''?'', CHR 0x27]"

definition full_xpath :: "Citation \<Rightarrow> bool \<Rightarrow> string option \<Rightarrow> error + string" where
  "full_xpath c removeRoot string =
     ebind (case string of
              Some s \<Rightarrow> Inr s
            | None \<Rightarrow> (case (cit_scope c, cit_xpath c) of
                         (Some sc, Some xp) \<Rightarrow> Inr (sc @ xp)
                       | _ \<Rightarrow> Inl TypeError))
       (\<lambda>xpath0.
          let xpath1 = replace xpath0 n_placeholder ''@n'';
              xpath2 = (if removeRoot
                        then join ''/'' (''.'' # drop 2 (split_sep CHR ''/'' xpath1))
                        else xpath1)
          in Inr (replace_all xpath2 (cit_namespaces c)))"

text \<open>The source's \<open>_testNamespace\<close>; \<open>findall\<close> on \<open>None\<close> raises \<open>TypeError\<close>.\<close>

definition u_testNamespace ::
  "string \<Rightarrow> string option \<Rightarrow> string option \<Rightarrow> nat \<Rightarrow> string \<Rightarrow> error + warning list" where
  "u_testNamespace name string original_string level failure_condition =
     (case string of
        None \<Rightarrow> Inl TypeError
      | Some s \<Rightarrow>
          (let match = shortcut_namespace_findall_len s in
           if failure_condition = ''equal'' \<and> match = 0
             then Inr [NoShortcuts name original_string level]
           else if failure_condition = ''greater'' \<and> match > 0
             then Inr [UnboundShortcuts name original_string level]
           else Inr []))"

definition testNamespace :: "Citation \<Rightarrow> nat \<Rightarrow> error + warning list" where
  "testNamespace c level =
     ebind (u_testNamespace ''scope'' (cit_scope c) (cit_scope c) level ''equal'') (\<lambda>e1.
     ebind (full_xpath c False (cit_scope c)) (\<lambda>fs.
     ebind (u_testNamespace ''scope'' (Some fs) (cit_scope c) level ''greater'') (\<lambda>e2.
     ebind (u_testNamespace ''xpath'' (cit_xpath c) (cit_xpath c) level ''equal'') (\<lambda>e3.
     ebind (full_xpath c False (cit_xpath c)) (\<lambda>fx.
     ebind (u_testNamespace ''xpath'' (Some fx) (cit_xpath c) level ''greater'') (\<lambda>e4.
     Inr (e1 @ e2 @ e3 @ e4)))))))"

text \<open>
  \<open>Citation.test\<close>. The two library calls are parameters: \<open>parse target\<close> is
  \<open>ElementTree.parse(target)\<close> (\<open>None\<close> when it raises) and \<open>findall xml xpath\<close> is
  \<open>xml.findall(xpath)\<close> on the parsed tree (\<open>None\<close> when it raises). The file behind
  \<open>target\<close> does not change during a test, so \<open>parse\<close> is a function. A parsed
  \<open>ElementTree\<close> object is always true in \<open>if xml\<close>, and \<open>if target\<close> is false for the
  empty string.
\<close>

fun test :: "(string \<Rightarrow> 'd option) \<Rightarrow> ('d \<Rightarrow> string \<Rightarrow> 'e list option) \<Rightarrow>
    Citation \<Rightarrow> string \<Rightarrow> nat \<Rightarrow> error + (bool list \<times> warning list)" where
  "test parse findall (Citation label xpath scope namespaces strict children) target level =
     (let self = Citation label xpath scope namespaces strict children in
      if target \<noteq> [] then
        (case parse target of
           None \<Rightarrow>
             if \<not> strict then Inr ([False], [ImpossibleToParse]) else Inl ValueError
         | Some xml \<Rightarrow>
             ebind (full_xpath self True None) (\<lambda>xp.
               let (found, warnings) =
                     (case findall xml xp of
                        None \<Rightarrow> ([], [UnableToRunXpath xp])
                      | Some f \<Rightarrow> (f, []))
               in
               ebind (if length found > 0 then Inr ([True], warnings)
                      else ebind (testNamespace self level) (\<lambda>w. Inr ([False], w)))
                 (\<lambda>(status, warnings).
                    (case children of
                       None \<Rightarrow> Inr (status, warnings)
                     | Some child \<Rightarrow>
                         ebind (test parse findall child target (level + 1))
                           (\<lambda>(s, w). Inr (status @ s, warnings @ w))))))
      else Inr ([False], []))"

subsection \<open>Document\<close>

text \<open>
  The fields of a \<open>Document\<close> object. \<open>db\<close> is the \<open>docname\<close> attribute; in an
  object that finishes construction it is present, since on \<open>None\<close> either
  \<open>replace_all\<close> or \<open>os.path.basename\<close> raises. \<open>validate\<close> is the \<open>schema\<close>
  attribute of the \<open>validate\<close> child, which may be missing.
\<close>

record Document =
  doc_rewriting_rules :: "(string \<times> string) list"
  doc_strict :: bool
  doc_db :: "string option"
  doc_path :: string
  doc_filename :: string
  doc_validate :: "string option"
  doc_namespaces :: "(string \<times> string) list"
  doc_citation :: Citation

text \<open>
  \<open>Document._retrieveNamespace\<close>: \<open>None + ":"\<close> and \<open>"{" + None\<close> raise \<open>TypeError\<close>.
\<close>

fun retrieveNamespace_loop ::
  "(string \<times> string) list \<Rightarrow> element list \<Rightarrow> error + (string \<times> string) list" where
  "retrieveNamespace_loop namespaces [] = Inr namespaces"
| "retrieveNamespace_loop namespaces (namespace # rest) =
     (case xml_get namespace ''abbreviation'' of
        None \<Rightarrow> Inl TypeError
      | Some abbreviation \<Rightarrow>
          (case xml_get namespace ''nsURI'' of
             None \<Rightarrow> Inl TypeError
           | Some nsURI \<Rightarrow>
               retrieveNamespace_loop
                 (dict_set namespaces (abbreviation @ '':'') (''{'' @ nsURI @ ''}'')) rest))"

definition retrieveNamespace :: "element \<Rightarrow> error + (string \<times> string) list" where
  "retrieveNamespace xml = retrieveNamespace_loop [] (xml_findall xml (cts ''namespaceMapping''))"

text \<open>
  \<open>Document._getFilePath\<close> on the value of \<open>xml.get("docname")\<close>: on \<open>None\<close> the loop of
  \<open>replace_all\<close> raises \<open>AttributeError\<close> at its first rule, and with no rule \<open>None\<close> is
  returned.
\<close>

definition getFilePath :: "string option \<Rightarrow> (string \<times> string) list \<Rightarrow> error + string option" where
  "getFilePath db rewriting_rules =
     (case db of
        None \<Rightarrow> (if rewriting_rules = [] then Inr None else Inl AttributeError)
      | Some d \<Rightarrow> Inr (Some (replace_all d rewriting_rules)))"

text \<open>
  \<open>Document.__init__\<close> on an element. \<open>os.path.basename(None)\<close> raises \<open>TypeError\<close>,
  \<open>find\<close> giving \<open>None\<close> makes the following \<open>.get\<close> or \<open>.find\<close> raise
  \<open>AttributeError\<close>, and \<open>Citation(xml=None)\<close> raises \<open>TypeError\<close> in
  \<open>ElementTree.parse\<close>.
\<close>

definition Document_init ::
  "element \<Rightarrow> (string \<times> string) list \<Rightarrow> bool \<Rightarrow> error + Document" where
  "Document_init xml rewriting_rules strict =
     ebind (getFilePath (xml_get xml ''docname'') rewriting_rules) (\<lambda>path.
     (case path of
        None \<Rightarrow> Inl TypeError
      | Some p \<Rightarrow>
          (case xml_find xml (cts ''validate'') of
             None \<Rightarrow> Inl AttributeError
           | Some validate \<Rightarrow>
               ebind (retrieveNamespace xml) (\<lambda>namespaces.
               (case xml_find xml (cts ''citationMapping'') of
                  None \<Rightarrow> Inl AttributeError
                | Some mapping \<Rightarrow>
                    (case xml_find mapping (cts ''citation'') of
                       None \<Rightarrow> Inl TypeError
                     | Some citation \<Rightarrow>
                         Inr \<lparr> doc_rewriting_rules = rewriting_rules,
                               doc_strict = strict,
                               doc_db = xml_get xml ''docname'',
                               doc_path = p,
                               doc_filename = basename p,
                               doc_validate = xml_get validate ''schema'',
                               doc_namespaces = namespaces,
                               doc_citation = Citation_init citation namespaces strict \<rparr>))))))"

text \<open>
  \<open>Document.testCitation(self)\<close> has no parameter besides \<open>self\<close>. \<open>kwargs\<close> lists the
  keyword arguments of a call: any keyword makes the call itself raise \<open>TypeError\<close>
  (unexpected keyword argument) before the body runs.
\<close>

definition testCitation :: "(string \<Rightarrow> 'd option) \<Rightarrow> ('d \<Rightarrow> string \<Rightarrow> 'e list option) \<Rightarrow>
    Document \<Rightarrow> string list \<Rightarrow> error + (bool list \<times> warning list)" where
  "testCitation parse findall d kwargs =
     (if kwargs \<noteq> [] then Inl TypeError
      else test parse findall (doc_citation d) (doc_path d) 1)"

subsection \<open>Text, Edition and Translation\<close>

datatype text_class = Edition | Translation

record Text =
  text_class :: text_class
  text_rewriting_rules :: "(string \<times> string) list"
  text_strict :: bool
  text_id :: "string option"
  text_titles :: "(string option \<times> string option) list"
  text_document :: Document

text \<open>
  The loop shared by \<open>Text._retrieveTitles\<close> and \<open>Work._retrieveTitles\<close>:
  \<open>self.titles[lang] = title.text\<close> for each title element in document order; the key
  is \<open>None\<close> for an element without \<open>xml:lang\<close>.
\<close>

definition titles_loop :: "element list \<Rightarrow> (string option \<times> string option) list" where
  "titles_loop elems = foldl (\<lambda>titles title. dict_set titles (xml_get title xml_lang) (etext title))
     [] elems"

definition Text_retrieveTitles ::
  "element \<Rightarrow> bool \<Rightarrow> error + (string option \<times> string option) list" where
  "Text_retrieveTitles xml strict =
     (let titles = titles_loop (xml_findall xml (cts ''label'')) in
      if strict \<and> length titles = 0 then Inl NameError else Inr titles)"

text \<open>
  In \<open>Text._retrieveTitles\<close> above the strict branch evaluates the name
  \<open>NoTitleException\<close>, which is not bound in \<open>texts.py\<close>: \<open>NameError\<close>.
\<close>

text \<open>
  \<open>Text.__init__\<close> (\<open>Edition\<close> and \<open>Translation\<close> only forward to it). The Document is
  built without a \<open>strict\<close> argument, so with the default \<open>False\<close>; \<open>Document(xml=None)\<close>
  raises \<open>TypeError\<close> in \<open>ElementTree.parse\<close>.
\<close>

definition Text_init ::
  "text_class \<Rightarrow> element \<Rightarrow> (string \<times> string) list \<Rightarrow> bool \<Rightarrow> error + Text" where
  "Text_init cls xml rewriting_rules strict =
     ebind (Text_retrieveTitles xml strict) (\<lambda>titles.
     ebind (case xml_find xml (cts ''online'') of
              None \<Rightarrow> Inl TypeError
            | Some online \<Rightarrow> Document_init online rewriting_rules False) (\<lambda>document.
     Inr \<lparr> text_class = cls,
           text_rewriting_rules = rewriting_rules,
           text_strict = strict,
           text_id = xml_get xml ''projid'',
           text_titles = titles,
           text_document = document \<rparr>))"

text \<open>
  \<open>Text.getTitle\<close>: any exception inside the \<open>try\<close> reaches the bare \<open>except\<close>, whose
  \<open>raise NoTitleException()\<close> raises \<open>NameError\<close>, the name not being bound in
  \<open>texts.py\<close>.
\<close>

definition Text_getTitle :: "Text \<Rightarrow> string option \<Rightarrow> error + string option" where
  "Text_getTitle t lang =
     (case dict_keys (text_titles t) of
        [] \<Rightarrow> Inl NameError
      | defaulttitle # _ \<Rightarrow>
          (case map_of (text_titles t) defaulttitle of
             None \<Rightarrow> Inl NameError
           | Some dflt \<Rightarrow>
               Inr (case map_of (text_titles t) lang of None \<Rightarrow> dflt | Some v \<Rightarrow> v)))"

section \<open>inventory.py\<close>

subsection \<open>Work\<close>

record Work =
  work_strict :: bool
  work_rewriting_rules :: "(string \<times> string) list"
  work_id :: "string option"
  work_titles :: "(string option \<times> string option) list"
  work_editions :: "Text list"
  work_translations :: "Text list"

definition Work_retrieveTitles ::
  "element \<Rightarrow> bool \<Rightarrow> error + (string option \<times> string option) list" where
  "Work_retrieveTitles xml strict =
     (let titles = titles_loop (xml_findall xml (cts ''title'')) in
      if strict \<and> length titles = 0 then Inl NoTitleException else Inr titles)"

text \<open>
  \<open>Work._retrieveEditions\<close> and \<open>Work._retrieveTranslations\<close>: each text is built with
  \<open>strict=False\<close>, written out in the call.
\<close>

definition retrieveEditions :: "element \<Rightarrow> (string \<times> string) list \<Rightarrow> error + Text list" where
  "retrieveEditions xml rewriting_rules =
     map_err (\<lambda>edition. Text_init Edition edition rewriting_rules False)
       (xml_findall xml (cts ''edition''))"

definition retrieveTranslations :: "element \<Rightarrow> (string \<times> string) list \<Rightarrow> error + Text list" where
  "retrieveTranslations xml rewriting_rules =
     map_err (\<lambda>translation. Text_init Translation translation rewriting_rules False)
       (xml_findall xml (cts ''translation''))"

definition Work_init :: "element \<Rightarrow> (string \<times> string) list \<Rightarrow> bool \<Rightarrow> error + Work" where
  "Work_init xml rewriting_rules strict =
     ebind (Work_retrieveTitles xml strict) (\<lambda>titles.
     ebind (retrieveEditions xml rewriting_rules) (\<lambda>editions.
     ebind (retrieveTranslations xml rewriting_rules) (\<lambda>translations.
     Inr \<lparr> work_strict = strict,
           work_rewriting_rules = rewriting_rules,
           work_id = xml_get xml ''projid'',
           work_titles = titles,
           work_editions = editions,
           work_translations = translations \<rparr>)))"

definition Work_getTexts :: "Work \<Rightarrow> Text list" where
  "Work_getTexts w = work_editions w @ work_translations w"

text \<open>
  \<open>Work.getTitle(lang=None)\<close>. \<open>self.titles[defaulttitle]\<close> is evaluated before
  \<open>self.titles.get\<close>; \<open>list(...)[0]\<close> on an empty dictionary raises \<open>IndexError\<close>, and
  the bare \<open>except\<close> turns every exception into \<open>NoTitleException\<close>.
\<close>

definition getTitle :: "Work \<Rightarrow> string option \<Rightarrow> error + string option" where
  "getTitle w lang =
     (let keysList = dict_keys (work_titles w) in
      ebind (if Some ''en'' \<in> set keysList then Inr (Some ''en'')
             else if Some ''eng'' \<in> set keysList then Inr (Some ''eng'')
             else (case keysList of [] \<Rightarrow> Inl NoTitleException | k # _ \<Rightarrow> Inr k))
        (\<lambda>defaulttitle.
           (case map_of (work_titles w) defaulttitle of
              None \<Rightarrow> Inl NoTitleException
            | Some dflt \<Rightarrow>
                Inr (case map_of (work_titles w) lang of None \<Rightarrow> dflt | Some v \<Rightarrow> v))))"

subsection \<open>TextGroup\<close>

record TextGroup =
  tg_strict :: bool
  tg_rewriting_rules :: "(string \<times> string) list"
  tg_id :: "string option"
  tg_name :: "string option"
  tg_works :: "Work list"

text \<open>
  \<open>TextGroup.__init__\<close>: a missing \<open>groupname\<close> child makes \<open>.text\<close> raise
  \<open>AttributeError\<close>; each Work is built without a \<open>strict\<close> argument.
\<close>

definition TextGroup_init ::
  "element \<Rightarrow> (string \<times> string) list \<Rightarrow> bool \<Rightarrow> error + TextGroup" where
  "TextGroup_init xml rewriting_rules strict =
     (case xml_find xml (cts ''groupname'') of
        None \<Rightarrow> Inl AttributeError
      | Some groupname \<Rightarrow>
          ebind (map_err (\<lambda>work. Work_init work rewriting_rules False)
                   (xml_findall xml (cts ''work''))) (\<lambda>works.
          Inr \<lparr> tg_strict = strict,
                tg_rewriting_rules = rewriting_rules,
                tg_id = xml_get xml ''projid'',
                tg_name = etext groupname,
                tg_works = works \<rparr>))"

subsection \<open>Inventory\<close>

record Inventory =
  inv_strict :: bool
  inv_rewriting_rules :: "(string \<times> string) list"
  inv_textGroups :: "TextGroup list"

text \<open>
  \<open>Inventory.__init__\<close>, from the root element that \<open>xmlParsing\<close> returns for the source
  (the helper is not part of the modelled files). Each TextGroup is built without a
  \<open>strict\<close> argument.
\<close>

definition Inventory_init ::
  "element \<Rightarrow> (string \<times> string) list \<Rightarrow> bool \<Rightarrow> error + Inventory" where
  "Inventory_init xml rewriting_rules strict =
     ebind (map_err (\<lambda>group. TextGroup_init group rewriting_rules False)
              (xml_findall xml (cts ''textgroup''))) (\<lambda>textGroups.
     Inr \<lparr> inv_strict = strict,
           inv_rewriting_rules = rewriting_rules,
           inv_textGroups = textGroups \<rparr>)"

definition getTexts :: "Inventory \<Rightarrow> text_class list \<Rightarrow> Text list" where
  "getTexts self instanceOf =
     concat (map (\<lambda>textgroup.
       concat (map (\<lambda>work.
         (if Edition \<in> set instanceOf then work_editions work else []) @
         (if Translation \<in> set instanceOf then work_translations work else []))
         (tg_works textgroup)))
       (inv_textGroups self))"

text \<open>
  \<open>Inventory.testTextsCitation\<close>: the call in the loop passes the keyword
  \<open>ignore_replication\<close> to \<open>Document.testCitation\<close>.
\<close>

definition testTextsCitation :: "(string \<Rightarrow> 'd option) \<Rightarrow> ('d \<Rightarrow> string \<Rightarrow> 'e list option) \<Rightarrow>
    Inventory \<Rightarrow> bool \<Rightarrow> error + (string \<times> bool list \<times> warning list) list" where
  "testTextsCitation parse findall self ignore_replication =
     map_err (\<lambda>doc.
         ebind (testCitation parse findall (text_document doc) [''ignore_replication''])
           (\<lambda>r. Inr (doc_filename (text_document doc), r)))
       (getTexts self [Edition, Translation])"

section \<open>Notions used to state the properties\<close>

text \<open>
  A citation chain is a \<open>Citation\<close> with its descendants. \<open>depth\<close> counts its levels and
  \<open>levels\<close> lists them, outermost first. \<open>attrs_present\<close> holds when every level carries
  the \<open>xpath\<close> and \<open>scope\<close> attributes the inventory format requires of a citation
  element.
\<close>

fun depth :: "Citation \<Rightarrow> nat" where
  "depth (Citation label xpath scope namespaces strict children) =
     (case children of None \<Rightarrow> 1 | Some child \<Rightarrow> Suc (depth child))"

fun levels :: "Citation \<Rightarrow> Citation list" where
  "levels (Citation label xpath scope namespaces strict children) =
     Citation label xpath scope namespaces strict children #
       (case children of None \<Rightarrow> [] | Some child \<Rightarrow> levels child)"

fun attrs_present :: "Citation \<Rightarrow> bool" where
  "attrs_present (Citation label xpath scope namespaces strict children) =
     (xpath \<noteq> None \<and> scope \<noteq> None \<and>
      (case children of None \<Rightarrow> True | Some child \<Rightarrow> attrs_present child))"

text \<open>
  \<open>level_matches findall xml c\<close>: the path expression of level \<open>c\<close> evaluates on the
  parsed target to at least one match.
\<close>

definition level_matches :: "('d \<Rightarrow> string \<Rightarrow> 'e list option) \<Rightarrow> 'd \<Rightarrow> Citation \<Rightarrow> bool" where
  "level_matches findall xml c =
     (case full_xpath c True None of
        Inl e \<Rightarrow> False
      | Inr xp \<Rightarrow> (case findall xml xp of None \<Rightarrow> False | Some f \<Rightarrow> f \<noteq> []))"

subsection \<open>A small inventory\<close>

text \<open>
  One text group (Homer) with one work (Iliad) and one edition, whose document has a
  two-level citation scheme (book, line) with the \<open>tei\<close> prefix bound.
\<close>

definition sample_namespaces :: "(string \<times> string) list" where
  "sample_namespaces = [(''tei:'', ''{http://www.tei-c.org/ns/1.0}'')]"

definition book_xpath :: string where
  "book_xpath = ''/tei:div['' @ n_placeholder @ '']''"

definition book_scope :: string where
  "book_scope = ''/tei:TEI/tei:text/tei:body''"

definition line_xpath :: string where
  "line_xpath = ''/tei:l['' @ n_placeholder @ '']''"

definition line_scope :: string where
  "line_scope = ''/tei:TEI/tei:text/tei:body/tei:div['' @ n_placeholder @ '']''"

definition sample_citation :: Citation where
  "sample_citation =
     Citation (Some ''book'') (Some book_xpath) (Some book_scope) sample_namespaces False
       (Some (Citation (Some ''line'') (Some line_xpath) (Some line_scope)
          sample_namespaces False None))"

text \<open>A one-level scheme whose citation element has no \<open>scope\<close> attribute.\<close>

definition scopeless_citation :: Citation where
  "scopeless_citation =
     Citation (Some ''book'') (Some book_xpath) None sample_namespaces False None"

definition strict_citation :: Citation where
  "strict_citation =
     Citation (Some ''book'') (Some book_xpath) (Some book_scope) sample_namespaces True None"

text \<open>
  A file system with one parseable file, and two evaluators of path expressions: one in
  which only the book level of the sample scheme has matches, one whose evaluation always
  fails.
\<close>

definition sample_parse :: "string \<Rightarrow> unit option" where
  "sample_parse target = (if target = ''/data/greek/tlg0012.tlg001'' then Some () else None)"

definition book_full_xpath :: string where
  "book_full_xpath = ''./{http://www.tei-c.org/ns/1.0}text/{http://www.tei-c.org/ns/1.0}body/{http://www.tei-c.org/ns/1.0}div[@n]''"

definition sample_findall :: "unit \<Rightarrow> string \<Rightarrow> unit list option" where
  "sample_findall xml xpath = (if xpath = book_full_xpath then Some [(), ()] else Some [])"

definition failing_findall :: "unit \<Rightarrow> string \<Rightarrow> unit list option" where
  "failing_findall xml xpath = None"

definition sample_citation_xml :: element where
  "sample_citation_xml =
     Element (cts ''citation'')
       [(''label'', ''book''), (''xpath'', book_xpath), (''scope'', book_scope)] None
       [Element (cts ''citation'')
          [(''label'', ''line''), (''xpath'', line_xpath), (''scope'', line_scope)] None []]"

definition sample_online_xml :: element where
  "sample_online_xml =
     Element (cts ''online'') [(''docname'', ''urn:cts:greekLit:tlg0012.tlg001'')] None
       [Element (cts ''validate'') [(''schema'', ''tei.rng'')] None [],
        Element (cts ''namespaceMapping'')
          [(''abbreviation'', ''tei''), (''nsURI'', ''http://www.tei-c.org/ns/1.0'')] None [],
        Element (cts ''citationMapping'') [] None [sample_citation_xml]]"

definition sample_work_xml :: element where
  "sample_work_xml =
     Element (cts ''work'') [(''projid'', ''greekLit:tlg001'')] None
       [Element (cts ''title'') [(xml_lang, ''en'')] (Some ''Iliad'') [],
        Element (cts ''edition'') [(''projid'', ''greekLit:perseus-grc1'')] None
          [Element (cts ''label'') [(xml_lang, ''en'')] (Some ''Iliad (Greek)'') [],
           sample_online_xml]]"

definition sample_inventory_xml :: element where
  "sample_inventory_xml =
     Element (cts ''TextInventory'') [] None
       [Element (cts ''textgroup'') [(''projid'', ''greekLit:tlg0012'')] None
          [Element (cts ''groupname'') [(xml_lang, ''en'')] (Some ''Homer'') [],
           sample_work_xml]]"

definition sample_rules :: "(string \<times> string) list" where
  "sample_rules = [(''urn:cts:greekLit:'', ''/data/greek/'')]"

text \<open>Rules of which no key occurs in the document name of the sample.\<close>

definition unmatched_rules :: "(string \<times> string) list" where
  "unmatched_rules = [(''urn:cts:latinLit:'', ''/data/latin/''), (''tlg.*'', ''X'')]"

subsection \<open>Works with and without titles\<close>

definition titled_work_xml :: element where
  "titled_work_xml =
     Element (cts ''work'') [(''projid'', ''w1'')] None
       [Element (cts ''title'') [(xml_lang, ''en'')] (Some ''A'') [],
        Element (cts ''title'') [(xml_lang, ''fr'')] (Some ''B'') []]"

definition french_german_work_xml :: element where
  "french_german_work_xml =
     Element (cts ''work'') [(''projid'', ''w2'')] None
       [Element (cts ''title'') [(xml_lang, ''fr'')] (Some ''B'') [],
        Element (cts ''title'') [(xml_lang, ''de'')] (Some ''C'') []]"

definition untitled_work_xml :: element where
  "untitled_work_xml =
     Element (cts ''work'') [(''projid'', ''w3'')] None
       [Element (cts ''edition'') [(''projid'', ''greekLit:perseus-grc1'')] None
          [Element (cts ''label'') [(xml_lang, ''en'')] (Some ''Iliad (Greek)'') [],
           sample_online_xml]]"

definition unlabelled_title_work_xml :: element where
  "unlabelled_title_work_xml =
     Element (cts ''work'') [(''projid'', ''w4'')] None
       [Element (cts ''title'') [(xml_lang, ''en'')] (Some ''Iliad'') [],
        Element (cts ''title'') [] (Some ''Ilias'') []]"

subsection \<open>Strictness of a subtree\<close>

text \<open>
  \<open>subtree_strict i\<close>: every TextGroup, Work, Edition, Translation, Document and Citation
  under the inventory \<open>i\<close> carries \<open>strict = True\<close>.
\<close>

definition text_subtree_strict :: "Text \<Rightarrow> bool" where
  "text_subtree_strict t =
     (text_strict t \<and> doc_strict (text_document t) \<and>
      list_all cit_strict (levels (doc_citation (text_document t))))"

definition work_subtree_strict :: "Work \<Rightarrow> bool" where
  "work_subtree_strict w = (work_strict w \<and> list_all text_subtree_strict (Work_getTexts w))"

definition textgroup_subtree_strict :: "TextGroup \<Rightarrow> bool" where
  "textgroup_subtree_strict g = (tg_strict g \<and> list_all work_subtree_strict (tg_works g))"

definition subtree_strict :: "Inventory \<Rightarrow> bool" where
  "subtree_strict i = list_all textgroup_subtree_strict (inv_textGroups i)"

section \<open>Citation testing\<close>

lemmas sample_defs = sample_citation_def strict_citation_def scopeless_citation_def
  sample_namespaces_def
  book_xpath_def book_scope_def line_xpath_def line_scope_def book_full_xpath_def
  sample_parse_def sample_findall_def failing_findall_def n_placeholder_def

lemmas namespace_defs = testNamespace_def u_testNamespace_def full_xpath_def ebind_def
  replace_all_def shortcut_namespace_findall_len_def is_alnum_def Let_def

lemma full_xpath_Some: "\<exists>xp. full_xpath c r (Some s) = Inr xp"
  by (simp add: full_xpath_def ebind_def Let_def)

lemma full_xpath_attrs:
  "cit_xpath c \<noteq> None \<Longrightarrow> cit_scope c \<noteq> None \<Longrightarrow> \<exists>xp. full_xpath c r None = Inr xp"
  by (auto simp: full_xpath_def ebind_def Let_def)

lemma u_testNamespace_Some: "\<exists>w. u_testNamespace name (Some s) orig level fc = Inr w"
  by (simp add: u_testNamespace_def Let_def)

lemma testNamespace_attrs:
  assumes "cit_xpath c \<noteq> None" "cit_scope c \<noteq> None"
  shows "\<exists>w. testNamespace c level = Inr w"
proof -
  from assms obtain xp sc where c: "cit_xpath c = Some xp" "cit_scope c = Some sc" by auto
  obtain e1 where e1: "u_testNamespace ''scope'' (Some sc) (Some sc) level ''equal'' = Inr e1"
    using u_testNamespace_Some by blast
  obtain fs where fs: "full_xpath c False (Some sc) = Inr fs"
    using full_xpath_Some by blast
  obtain e2 where e2: "u_testNamespace ''scope'' (Some fs) (Some sc) level ''greater'' = Inr e2"
    using u_testNamespace_Some by blast
  obtain e3 where e3: "u_testNamespace ''xpath'' (Some xp) (Some xp) level ''equal'' = Inr e3"
    using u_testNamespace_Some by blast
  obtain fx where fx: "full_xpath c False (Some xp) = Inr fx"
    using full_xpath_Some by blast
  obtain e4 where e4: "u_testNamespace ''xpath'' (Some fx) (Some xp) level ''greater'' = Inr e4"
    using u_testNamespace_Some by blast
  show ?thesis
    by (simp add: testNamespace_def c e1 fs e2 e3 fx e4 ebind_def)
qed

lemma u_testNamespace_kinds:
  "u_testNamespace name string orig level fc = Inr ws \<Longrightarrow> UnableToRunXpath xp \<notin> set ws"
  by (auto simp: u_testNamespace_def Let_def split: option.splits if_splits)

lemma testNamespace_kinds:
  assumes "testNamespace c level = Inr ns"
  shows "UnableToRunXpath xp \<notin> set ns"
  using assms unfolding testNamespace_def ebind_def
  by (auto split: sum.splits dest: u_testNamespace_kinds)

lemma length_levels: "length (levels c) = depth c"
  by (induction c) (auto split: option.splits)

lemma test_empty_target: "test parse findall c [] level = Inr ([False], [])"
  by (cases c) simp

lemma test_unparsed:
  "target \<noteq> [] \<Longrightarrow> parse target = None \<Longrightarrow>
   test parse findall c target level =
     (if cit_strict c then Inl ValueError else Inr ([False], [ImpossibleToParse]))"
  by (cases c) simp

text \<open>
  A level that lacks \<open>xpath\<close> or \<open>scope\<close> cannot build its path expression: on a parsed
  target \<open>self.scope + self.xpath\<close> raises \<open>TypeError\<close>. The properties of the test below
  are therefore stated for chains in which every level carries both attributes.
\<close>

lemma full_xpath_missing_attribute:
  "cit_xpath c = None \<or> cit_scope c = None \<Longrightarrow> full_xpath c r None = Inl TypeError"
  by (cases "cit_scope c"; cases "cit_xpath c") (simp_all add: full_xpath_def ebind_def)

lemma test_missing_attribute:
  assumes "cit_xpath c = None \<or> cit_scope c = None"
    and "target \<noteq> []" and "parse target = Some xml"
  shows "test parse findall c target level = Inl TypeError"
proof (cases c)
  case (Citation label xpath scope namespaces strict children)
  from assms(1) have "full_xpath c True None = Inl TypeError"
    by (rule full_xpath_missing_attribute)
  with assms(2,3) show ?thesis
    unfolding Citation by (simp add: ebind_def)
qed

text \<open>
  On a parsed target a chain whose levels carry their attributes is tested level by level:
  the status list holds, outermost level first, whether each level's expression matched.
\<close>

lemma test_status:
  assumes "attrs_present c" "target \<noteq> []" "parse target = Some xml"
  shows "\<exists>w. test parse findall c target level = Inr (map (level_matches findall xml) (levels c), w)"
  using assms
proof (induction c arbitrary: level)
  case (Citation label xpath scope namespaces strict children)
  let ?self = "Citation label xpath scope namespaces strict children"
  from Citation.prems have ax: "cit_xpath ?self \<noteq> None" "cit_scope ?self \<noteq> None" by simp_all
  obtain xp where xp: "full_xpath ?self True None = Inr xp"
    using full_xpath_attrs [OF ax] by blast
  obtain ns where ns: "testNamespace ?self level = Inr ns"
    using testNamespace_attrs [OF ax] by blast
  show ?case
  proof (cases children)
    case None
    then show ?thesis
      using Citation.prems xp ns
      by (auto simp: ebind_def level_matches_def Let_def split: option.splits)
  next
    case (Some child)
    with Citation.prems have "attrs_present child" by simp
    from Citation.IH [of child, OF _ this Citation.prems(2,3)] Some
    obtain w where "test parse findall child target (level + 1)
        = Inr (map (level_matches findall xml) (levels child), w)"
      by (auto simp: option.set_intros)
    then show ?thesis
      using Citation.prems xp ns Some
      by (auto simp: ebind_def level_matches_def Let_def split: option.splits)
  qed
qed

text \<open>
  C2, as the code has it. \<open>Citation.test\<close> does raise: a Citation whose strictness flag is
  set raises \<open>ValueError\<close> when its non-empty target cannot be parsed (the \<open>else\<close> branch of
  \<open>if self.strict is False\<close>). For a chain whose levels carry the \<open>xpath\<close> and \<open>scope\<close>
  attributes this is the only exception: in every other case, and so for every Citation
  that is not strict, the test returns a (status, warnings) pair, also for an empty
  target, an unparseable target and a target without matches.
\<close>

theorem test_raises_iff_strict_unparsed:
  assumes "attrs_present c"
  shows "if target \<noteq> [] \<and> parse target = None \<and> cit_strict c
         then test parse findall c target level = Inl ValueError
         else (\<exists>status warnings. test parse findall c target level = Inr (status, warnings))"
proof (cases "target = []")
  case True
  then show ?thesis by (simp add: test_empty_target)
next
  case nonempty: False
  show ?thesis
  proof (cases "parse target")
    case None
    with nonempty show ?thesis by (simp add: test_unparsed)
  next
    case (Some xml)
    have "\<exists>w. test parse findall c target level
        = Inr (map (level_matches findall xml) (levels c), w)"
      using assms nonempty Some by (rule test_status)
    with Some show ?thesis by auto
  qed
qed

theorem test_raises_iff_strict_unparsed_witness:
  "attrs_present sample_citation \<and>
   test sample_parse sample_findall sample_citation ''/data/missing.xml'' 1
     = Inr ([False], [ImpossibleToParse])"
  using test_raises_iff_strict_unparsed
    [of sample_citation "''/data/missing.xml''" sample_parse sample_findall 1]
  by (simp add: sample_defs)

text \<open>
  The claim C2 as stated fails on a strict Citation with a target that cannot be parsed:
  the test raises.
\<close>

theorem test_strict_unparsed_raises:
  "test sample_parse sample_findall strict_citation ''/data/missing.xml'' 1 = Inl ValueError"
  by (simp add: sample_defs)

text \<open>
  C4, evaluated on the code: a Citation whose \<open>scope\<close> and \<open>xpath\<close> use the single prefix
  \<open>tei:\<close>, bound in its namespace table to \<open>{http://www.tei-c.org/ns/1.0}\<close>. Both
  "namespaces shortcuts with no bindings" warnings are emitted all the same: the pattern
  is matched against the rewritten string, where it finds \<open>http:\<close> inside the namespace
  URI that the rewriting put there.
\<close>

theorem testNamespace_bound_prefix_warns:
  "testNamespace strict_citation 1 =
     Inr [UnboundShortcuts ''scope'' (Some book_scope) 1,
          UnboundShortcuts ''xpath'' (Some book_xpath) 1]"
  by (simp add: sample_defs namespace_defs)

text \<open>
  C5, as the code has it. The claim as stated, for every chain, fails on a level that
  lacks \<open>xpath\<close> or \<open>scope\<close>: on a parsed target the test of such a level raises
  \<open>TypeError\<close> and returns no status list. For a citation chain of depth \<open>n\<close> whose
  levels all carry the \<open>xpath\<close> and \<open>scope\<close> attributes and a target whose parsing
  succeeds, \<open>Citation.test\<close> returns a status list of length \<open>n\<close>: one boolean per
  level, outermost level first, telling whether that level's expression matched.
\<close>

theorem test_status_length:
  assumes "attrs_present c" and "target \<noteq> []" and "parse target = Some xml"
  shows "\<exists>status warnings.
           test parse findall c target level = Inr (status, warnings) \<and>
           length status = depth c \<and>
           status = map (level_matches findall xml) (levels c)"
  using assms test_status [where findall = findall and level = level]
  by (fastforce simp: length_levels)

theorem test_status_length_witness:
  "attrs_present sample_citation \<and>
   sample_parse ''/data/greek/tlg0012.tlg001'' = Some () \<and>
   depth sample_citation = 2 \<and>
   fst (projr (test sample_parse sample_findall sample_citation ''/data/greek/tlg0012.tlg001'' 1))
     = [True, False]"
  using test_status_length
    [of sample_citation "''/data/greek/tlg0012.tlg001''" sample_parse "()" sample_findall 1]
  by (auto simp: sample_defs level_matches_def namespace_defs)

text \<open>
  The claim C5 as stated fails on a one-level chain without \<open>scope\<close> and the parseable
  target: the chain has depth 1, and the test raises instead of returning a list.
\<close>

theorem test_scopeless_raises:
  "depth scopeless_citation = 1 \<and>
   sample_parse ''/data/greek/tlg0012.tlg001'' = Some () \<and>
   test sample_parse sample_findall scopeless_citation ''/data/greek/tlg0012.tlg001'' 1
     = Inl TypeError"
  by (simp add: sample_defs full_xpath_def ebind_def)

text \<open>
  C6: on a successfully parsed target, when the expression of a level has no match, or
  its evaluation fails, the level records \<open>False\<close> and its warnings are exactly the output
  of \<open>testNamespace\<close> for the level, in which no "Unable to run xpath" warning occurs; the
  status list and the warnings of the child's recursive test, run at the next level, are
  appended to them.
\<close>

theorem test_zero_matches:
  assumes "attrs_present c" and "target \<noteq> []" and "parse target = Some xml"
    and "full_xpath c True None = Inr xp"
    and "findall xml xp = None \<or> findall xml xp = Some []"
  shows "\<exists>ns. testNamespace c level = Inr ns \<and> UnableToRunXpath xp \<notin> set ns \<and>
           (case cit_children c of
              None \<Rightarrow> test parse findall c target level = Inr ([False], ns)
            | Some child \<Rightarrow>
                (\<exists>s w. test parse findall child target (level + 1) = Inr (s, w) \<and>
                   test parse findall c target level = Inr (False # s, ns @ w)))"
proof (cases c)
  case (Citation label xpath scope namespaces strict children)
  from assms(1) Citation have ax: "cit_xpath c \<noteq> None" "cit_scope c \<noteq> None" by simp_all
  obtain ns where ns: "testNamespace c level = Inr ns"
    using testNamespace_attrs [OF ax] by blast
  have kinds: "UnableToRunXpath xp \<notin> set ns"
    using ns by (rule testNamespace_kinds)
  show ?thesis
  proof (cases children)
    case None
    have "test parse findall c target level = Inr ([False], ns)"
      using assms(2-5) ns None unfolding Citation
      by (auto simp: ebind_def)
    with ns kinds None Citation show ?thesis by simp
  next
    case (Some child)
    with assms(1) Citation have "attrs_present child" by simp
    then have "\<exists>w. test parse findall child target (level + 1)
        = Inr (map (level_matches findall xml) (levels child), w)"
      using assms(2,3) by (rule test_status)
    then obtain s w where child: "test parse findall child target (level + 1) = Inr (s, w)"
      by blast
    have "test parse findall c target level = Inr (False # s, ns @ w)"
      using assms(2-5) ns Some child unfolding Citation
      by (auto simp: ebind_def)
    with ns kinds Some Citation child show ?thesis by simp
  qed
qed

theorem test_zero_matches_witness:
  "attrs_present sample_citation \<and>
   sample_parse ''/data/greek/tlg0012.tlg001'' = Some () \<and>
   full_xpath sample_citation True None = Inr book_full_xpath \<and>
   failing_findall () book_full_xpath = None \<and>
   test sample_parse failing_findall sample_citation ''/data/greek/tlg0012.tlg001'' 1 =
     Inr ([False, False],
       [UnboundShortcuts ''scope'' (Some book_scope) 1,
        UnboundShortcuts ''xpath'' (Some book_xpath) 1,
        UnboundShortcuts ''scope'' (Some line_scope) 2,
        UnboundShortcuts ''xpath'' (Some line_xpath) 2])"
  using test_zero_matches
    [of sample_citation "''/data/greek/tlg0012.tlg001''" sample_parse "()" book_full_xpath
      failing_findall 1]
  by (simp add: sample_defs namespace_defs)

section \<open>Rewrite rules and the path of a Document\<close>


lemma replace_no_occurrence: "\<not> sublist old s \<Longrightarrow> replace s old new = s"
proof (induction s old new rule: replace.induct)
  case (1 old new)
  then show ?case by auto
next
  case (2 c cs old new)
  from "2.prems" have ne: "old \<noteq> []" by auto
  from "2.prems" have np: "\<not> prefix old (c # cs)" and ns: "\<not> sublist old cs"
    by (auto simp: sublist_Cons_right)
  from "2.IH"(3) [OF ne np ns] ne np show ?case by simp
qed

lemma replace_all_no_occurrence:
  "\<forall>(k, v) \<in> set rules. \<not> sublist k db \<Longrightarrow> replace_all db rules = db"
  unfolding replace_all_def
  by (induction rules) (auto simp: replace_no_occurrence)

lemma replace_first_occurrence:
  assumes "old \<noteq> []" and "\<not> sublist old (pre @ butlast old)"
  shows "replace (pre @ old @ post) old new = pre @ new @ replace post old new"
  using assms
proof (induction pre)
  case Nil
  then obtain c cs where "old @ post = c # cs" by (cases old) auto
  with Nil show ?case by (cases old) auto
next
  case (Cons p ps)
  have np: "\<not> prefix old ((p # ps) @ old @ post)"
  proof
    assume "prefix old ((p # ps) @ old @ post)"
    then have eq: "old = take (length old) ((p # ps) @ old @ post)"
      by (metis append_eq_conv_conj prefixE)
    define X where "X = (p # ps) @ butlast old"
    have split: "(p # ps) @ old @ post = X @ (last old # post)"
      using Cons.prems(1) by (simp add: X_def)
    have "length old \<le> length X"
      by (simp add: X_def)
    then have "take (length old) (X @ (last old # post)) = take (length old) X"
      by simp
    moreover have "old = take (length old) (X @ (last old # post))"
      using eq unfolding split .
    ultimately have "old = take (length old) X"
      by (metis)
    then have "old = take (length old) ((p # ps) @ butlast old)"
      by (simp add: X_def)
    then have "prefix old ((p # ps) @ butlast old)"
      by (metis take_is_prefix)
    then have "sublist old ((p # ps) @ butlast old)"
      by (rule prefix_imp_sublist)
    with Cons.prems(2) show False by simp
  qed
  have ns: "\<not> sublist old (ps @ butlast old)"
    using Cons.prems(2) by (auto simp: sublist_Cons_right)
  from Cons.IH [OF Cons.prems(1) ns] np Cons.prems(1) show ?case by simp
qed




lemma Document_init_path:
  assumes "Document_init xml rules strict = Inr d"
  shows "\<exists>db. xml_get xml ''docname'' = Some db \<and> doc_db d = Some db \<and> doc_path d = replace_all db rules"
proof (cases "xml_get xml ''docname''")
  case None
  with assms show ?thesis
    by (simp add: Document_init_def getFilePath_def ebind_def split: if_splits)
next
  case (Some db)
  from assms Some have "(case xml_find xml (cts ''validate'') of
             None \<Rightarrow> Inl AttributeError
           | Some validate \<Rightarrow>
               ebind (retrieveNamespace xml) (\<lambda>namespaces.
               (case xml_find xml (cts ''citationMapping'') of
                  None \<Rightarrow> Inl AttributeError
                | Some mapping \<Rightarrow>
                    (case xml_find mapping (cts ''citation'') of
                       None \<Rightarrow> Inl TypeError
                     | Some citation \<Rightarrow>
                         Inr \<lparr> doc_rewriting_rules = rules,
                               doc_strict = strict,
                               doc_db = xml_get xml ''docname'',
                               doc_path = replace_all db rules,
                               doc_filename = basename (replace_all db rules),
                               doc_validate = xml_get validate ''schema'',
                               doc_namespaces = namespaces,
                               doc_citation = Citation_init citation namespaces strict \<rparr>)))) = Inr d"
    by (simp add: Document_init_def getFilePath_def ebind_def)
  then obtain validate namespaces citation where
    "d = \<lparr> doc_rewriting_rules = rules,
                               doc_strict = strict,
                               doc_db = xml_get xml ''docname'',
                               doc_path = replace_all db rules,
                               doc_filename = basename (replace_all db rules),
                               doc_validate = xml_get validate ''schema'',
                               doc_namespaces = namespaces,
                               doc_citation = Citation_init citation namespaces strict \<rparr>"
    by (auto simp: ebind_def split: option.splits sum.splits)
  with Some show ?thesis by simp
qed

text \<open>
  C9: the resolved file path of a Document is its \<open>docname\<close> value with the rewrite rules
  applied one after the other by \<open>str.replace\<close>, which replaces literal occurrences of the
  key, found from the left: the first occurrence is replaced and the rest of the string
  treated alike, and a string in which the key does not occur is unchanged. With the rule
  \<open>urn:cts:greekLit:\<close> to \<open>/data/greek/\<close> the name \<open>urn:cts:greekLit:tlg0012.tlg001\<close>
  becomes \<open>/data/greek/tlg0012.tlg001\<close>; when no rule key occurs in the name, the path is
  the name.
\<close>

theorem Document_path_rewrite:
  assumes "Document_init xml rewriting_rules strict = Inr d"
  shows "(\<exists>db. doc_db d = Some db \<and>
            doc_path d = foldl (\<lambda>h (k, v). replace h k v) db rewriting_rules \<and>
            ((\<forall>(k, v) \<in> set rewriting_rules. \<not> sublist k db) \<longrightarrow> doc_path d = db)) \<and>
         replace_all ''urn:cts:greekLit:tlg0012.tlg001'' [(''urn:cts:greekLit:'', ''/data/greek/'')]
           = ''/data/greek/tlg0012.tlg001'' \<and>
         (\<forall>old new pre post. old \<noteq> [] \<and> \<not> sublist old (pre @ butlast old) \<longrightarrow>
            replace (pre @ old @ post) old new = pre @ new @ replace post old new) \<and>
         (\<forall>old new s. \<not> sublist old s \<longrightarrow> replace s old new = s)"
proof -
  from Document_init_path [OF assms] obtain db where
    db: "doc_db d = Some db" "doc_path d = replace_all db rewriting_rules"
    by blast
  have "(\<forall>(k, v) \<in> set rewriting_rules. \<not> sublist k db) \<longrightarrow> doc_path d = db"
    using replace_all_no_occurrence [of rewriting_rules db] db(2) by simp
  with db have "\<exists>db. doc_db d = Some db \<and>
           doc_path d = foldl (\<lambda>h (k, v). replace h k v) db rewriting_rules \<and>
           ((\<forall>(k, v) \<in> set rewriting_rules. \<not> sublist k db) \<longrightarrow> doc_path d = db)"
    unfolding replace_all_def by blast
  moreover
  have "replace_all ''urn:cts:greekLit:tlg0012.tlg001'' [(''urn:cts:greekLit:'', ''/data/greek/'')]
           = ''/data/greek/tlg0012.tlg001''"
    by (simp add: replace_all_def)
  moreover
  have "\<forall>old new pre post. old \<noteq> [] \<and> \<not> sublist old (pre @ butlast old) \<longrightarrow>
           replace (pre @ old @ post) old new = pre @ new @ replace post old new"
    by (simp add: replace_first_occurrence)
  moreover
  have "\<forall>old new s. \<not> sublist old s \<longrightarrow> replace s old new = s"
    by (simp add: replace_no_occurrence)
  ultimately show ?thesis by blast
qed

theorem Document_path_rewrite_witness:
  "doc_path (projr (Document_init sample_online_xml sample_rules False))
     = ''/data/greek/tlg0012.tlg001'' \<and>
   doc_path (projr (Document_init sample_online_xml unmatched_rules False))
     = ''urn:cts:greekLit:tlg0012.tlg001''"
proof -
  let ?r1 = "Document_init sample_online_xml sample_rules False"
  let ?r2 = "Document_init sample_online_xml unmatched_rules False"
  have "\<not> isl ?r1" by code_simp
  then have r1: "?r1 = Inr (projr ?r1)" by simp
  have db1: "doc_db (projr ?r1) = Some ''urn:cts:greekLit:tlg0012.tlg001''" by code_simp
  have "\<not> isl ?r2" by code_simp
  then have r2: "?r2 = Inr (projr ?r2)" by simp
  have db2: "doc_db (projr ?r2) = Some ''urn:cts:greekLit:tlg0012.tlg001''" by code_simp
  have no: "\<forall>(k, v) \<in> set unmatched_rules. \<not> sublist k ''urn:cts:greekLit:tlg0012.tlg001''"
  proof -
    have "list_all (\<lambda>(k, v). \<not> sublist k ''urn:cts:greekLit:tlg0012.tlg001'') unmatched_rules"
      by code_simp
    then show ?thesis by (simp add: list_all_iff)
  qed
  from Document_path_rewrite [OF r1] db1
  have "doc_path (projr ?r1) = ''/data/greek/tlg0012.tlg001''"
    by (auto simp: sample_rules_def)
  moreover from Document_path_rewrite [OF r2] db2 no
  have "doc_path (projr ?r2) = ''urn:cts:greekLit:tlg0012.tlg001''"
    by auto
  ultimately show ?thesis by simp
qed

section \<open>Titles of a Work\<close>


lemma update_not_Nil: "AList.update k v d \<noteq> []"
  by (cases d) auto

lemma titles_loop_empty: "titles_loop elems = [] \<longleftrightarrow> elems = []"
proof (induction elems rule: rev_induct)
  case Nil
  then show ?case by (simp add: titles_loop_def)
next
  case (snoc t ts)
  then show ?case by (simp add: titles_loop_def dict_set_def update_not_Nil)
qed

lemma map_of_titles_loop_snoc:
  "map_of (titles_loop (ts @ [t])) = (map_of (titles_loop ts))(xml_get t xml_lang \<mapsto> etext t)"
  by (simp add: titles_loop_def dict_set_def update_conv')

lemma map_of_titles_loop:
  "map_of (titles_loop elems) k =
     (let ts = filter (\<lambda>t. xml_get t xml_lang = k) elems
      in if ts = [] then None else Some (etext (last ts)))"
proof (induction elems rule: rev_induct)
  case Nil
  then show ?case by (simp add: titles_loop_def)
next
  case (snoc t ts)
  show ?case
  proof (cases "xml_get t xml_lang = k")
    case True
    then show ?thesis
      by (simp add: map_of_titles_loop_snoc)
  next
    case False
    then show ?thesis
      using snoc.IH by (simp add: map_of_titles_loop_snoc)
  qed
qed

lemma map_of_key: "k \<in> set (dict_keys d) \<Longrightarrow> \<exists>v. map_of d k = Some v"
  by (induction d) (auto simp: dict_keys_def)

lemma map_of_no_key: "k \<notin> set (dict_keys d) \<Longrightarrow> map_of d k = None"
  by (induction d) (auto simp: dict_keys_def)

lemma getTitle_empty: "work_titles w = [] \<Longrightarrow> getTitle w lang = Inl NoTitleException"
  by (simp add: getTitle_def dict_keys_def ebind_def)

lemma key_iff: "k \<in> set (dict_keys d) \<longleftrightarrow> map_of d k \<noteq> None"
  using map_of_key map_of_no_key by (metis option.distinct(1))

text \<open>
  C7: for a Work whose title mapping is not empty, \<open>getTitle(lang)\<close> returns the title
  stored under \<open>lang\<close> when \<open>lang\<close> is a key; otherwise the title under \<open>en\<close> if there is
  one, else the title under \<open>eng\<close> if there is one, else the title of the first entry of
  the mapping. For the titles \<open>en: A, fr: B\<close> it gives \<open>B\<close> for \<open>fr\<close>, and \<open>A\<close> for \<open>de\<close>
  and for no language at all.
\<close>

theorem getTitle_resolution:
  assumes "work_titles w \<noteq> []"
  shows "(\<forall>lang v. map_of (work_titles w) lang = Some v \<longrightarrow> getTitle w lang = Inr v) \<and>
         (\<forall>lang a. map_of (work_titles w) lang = None \<and>
            map_of (work_titles w) (Some ''en'') = Some a \<longrightarrow> getTitle w lang = Inr a) \<and>
         (\<forall>lang b. map_of (work_titles w) lang = None \<and>
            map_of (work_titles w) (Some ''en'') = None \<and>
            map_of (work_titles w) (Some ''eng'') = Some b \<longrightarrow> getTitle w lang = Inr b) \<and>
         (\<forall>lang. map_of (work_titles w) lang = None \<and>
            map_of (work_titles w) (Some ''en'') = None \<and>
            map_of (work_titles w) (Some ''eng'') = None \<longrightarrow>
            getTitle w lang = Inr (snd (hd (work_titles w)))) \<and>
         (work_titles w = [(Some ''en'', Some ''A''), (Some ''fr'', Some ''B'')] \<longrightarrow>
            getTitle w (Some ''fr'') = Inr (Some ''B'') \<and>
            getTitle w (Some ''de'') = Inr (Some ''A'') \<and>
            getTitle w None = Inr (Some ''A''))"
proof -
  obtain k0 v0 rest where titles: "work_titles w = (k0, v0) # rest"
    using assms by (cases "work_titles w") auto
  have dflt: "\<exists>k d. (if Some ''en'' \<in> set (dict_keys (work_titles w)) then Inr (Some ''en'')
             else if Some ''eng'' \<in> set (dict_keys (work_titles w)) then Inr (Some ''eng'')
             else (case dict_keys (work_titles w) of [] \<Rightarrow> Inl NoTitleException | k # _ \<Rightarrow> Inr k))
            = Inr k \<and> map_of (work_titles w) k = Some d"
  proof (cases "Some ''en'' \<in> set (dict_keys (work_titles w))")
    case True
    then show ?thesis using map_of_key [OF True] by simp
  next
    case noen: False
    show ?thesis
    proof (cases "Some ''eng'' \<in> set (dict_keys (work_titles w))")
      case True
      then show ?thesis using noen map_of_key [OF True] by simp
    next
      case False
      with noen titles show ?thesis by (simp add: dict_keys_def)
    qed
  qed
  have 1: "getTitle w lang = Inr v" if "map_of (work_titles w) lang = Some v" for lang v
    using that dflt by (auto simp: getTitle_def ebind_def Let_def)
  have 2: "getTitle w lang = Inr a"
    if "map_of (work_titles w) lang = None" "map_of (work_titles w) (Some ''en'') = Some a"
    for lang a
    using that by (simp add: getTitle_def ebind_def Let_def key_iff)
  have 3: "getTitle w lang = Inr b"
    if "map_of (work_titles w) lang = None" "map_of (work_titles w) (Some ''en'') = None"
      "map_of (work_titles w) (Some ''eng'') = Some b"
    for lang b
    using that by (simp add: getTitle_def ebind_def Let_def key_iff)
  have 4: "getTitle w lang = Inr (snd (hd (work_titles w)))"
    if "map_of (work_titles w) lang = None" "map_of (work_titles w) (Some ''en'') = None"
      "map_of (work_titles w) (Some ''eng'') = None"
    for lang
  proof -
    from that have no: "Some ''en'' \<notin> set (dict_keys (work_titles w))"
      "Some ''eng'' \<notin> set (dict_keys (work_titles w))"
      by (simp_all add: key_iff)
    have keys: "dict_keys (work_titles w) = k0 # dict_keys rest"
      and first: "map_of (work_titles w) k0 = Some v0"
      and hd: "snd (hd (work_titles w)) = v0"
      using titles by (simp_all add: dict_keys_def)
    show ?thesis
      unfolding getTitle_def Let_def using no that(1)
      by (simp add: keys first hd ebind_def)
  qed
  have 5: "getTitle w (Some ''fr'') = Inr (Some ''B'') \<and>
            getTitle w (Some ''de'') = Inr (Some ''A'') \<and>
            getTitle w None = Inr (Some ''A'')"
    if "work_titles w = [(Some ''en'', Some ''A''), (Some ''fr'', Some ''B'')]"
    using that by (simp add: getTitle_def ebind_def Let_def dict_keys_def)
  from 1 2 3 4 5 show ?thesis by blast
qed

theorem getTitle_resolution_witness:
  "getTitle (projr (Work_init titled_work_xml [] False)) (Some ''fr'') = Inr (Some ''B'') \<and>
   getTitle (projr (Work_init titled_work_xml [] False)) (Some ''de'') = Inr (Some ''A'') \<and>
   getTitle (projr (Work_init titled_work_xml [] False)) None = Inr (Some ''A'') \<and>
   getTitle (projr (Work_init french_german_work_xml [] False)) (Some ''xx'') = Inr (Some ''B'')"
proof -
  let ?w1 = "projr (Work_init titled_work_xml [] False)"
  let ?w2 = "projr (Work_init french_german_work_xml [] False)"
  have t1: "work_titles ?w1 = [(Some ''en'', Some ''A''), (Some ''fr'', Some ''B'')]"
    by code_simp
  have t2: "work_titles ?w2 = [(Some ''fr'', Some ''B''), (Some ''de'', Some ''C'')]"
    by code_simp
  from getTitle_resolution [of ?w1] t1
  have "getTitle ?w1 (Some ''fr'') = Inr (Some ''B'') \<and>
        getTitle ?w1 (Some ''de'') = Inr (Some ''A'') \<and>
        getTitle ?w1 None = Inr (Some ''A'')"
    by simp
  moreover from getTitle_resolution [of ?w2] t2
  have "getTitle ?w2 (Some ''xx'') = Inr (Some ''B'')"
    by simp
  ultimately show ?thesis by simp
qed

lemma Work_init_titles:
  assumes "Work_init xml rules strict = Inr w"
  shows "work_titles w = titles_loop (xml_findall xml (cts ''title''))"
proof -
  from assms obtain titles eds trs where
    "Work_retrieveTitles xml strict = Inr titles"
    "w = \<lparr> work_strict = strict, work_rewriting_rules = rules,
           work_id = xml_get xml ''projid'', work_titles = titles,
           work_editions = eds, work_translations = trs \<rparr>"
    by (auto simp: Work_init_def ebind_def split: sum.splits)
  then show ?thesis
    by (auto simp: Work_retrieveTitles_def Let_def split: if_splits)
qed

text \<open>
  C8: a Work built from XML without a title child raises \<open>NoTitleException\<close> (the
  specification's NoTitleFound) under \<open>strict=True\<close>. Under \<open>strict=False\<close> the retrieval of
  titles does not raise, the construction succeeds as soon as the editions and
  translations are built, and \<open>getTitle\<close> on the Work raises \<open>NoTitleException\<close> whatever
  the language asked for.
\<close>

theorem Work_without_title:
  assumes "xml_findall xml (cts ''title'') = []"
  shows "Work_init xml rewriting_rules True = Inl NoTitleException \<and>
         Work_retrieveTitles xml False = Inr [] \<and>
         (\<forall>editions translations.
            retrieveEditions xml rewriting_rules = Inr editions \<and>
            retrieveTranslations xml rewriting_rules = Inr translations \<longrightarrow>
            (\<exists>w. Work_init xml rewriting_rules False = Inr w)) \<and>
         (\<forall>w lang. Work_init xml rewriting_rules False = Inr w \<longrightarrow>
            getTitle w lang = Inl NoTitleException)"
proof -
  have loop: "titles_loop (xml_findall xml (cts ''title'')) = []"
    using assms by (simp add: titles_loop_def)
  have a: "Work_init xml rewriting_rules True = Inl NoTitleException"
    by (simp add: Work_init_def Work_retrieveTitles_def loop ebind_def)
  have b: "Work_retrieveTitles xml False = Inr []"
    by (simp add: Work_retrieveTitles_def loop)
  have c: "\<exists>w. Work_init xml rewriting_rules False = Inr w"
    if "retrieveEditions xml rewriting_rules = Inr eds"
      "retrieveTranslations xml rewriting_rules = Inr trs"
    for eds trs
    using that b by (simp add: Work_init_def ebind_def)
  have d: "getTitle w lang = Inl NoTitleException"
    if "Work_init xml rewriting_rules False = Inr w" for w lang
    using Work_init_titles [OF that] loop by (simp add: getTitle_empty)
  from a b c d show ?thesis by blast
qed

theorem Work_without_title_witness:
  "Work_init untitled_work_xml sample_rules True = Inl NoTitleException \<and>
   \<not> isl (Work_init untitled_work_xml sample_rules False) \<and>
   getTitle (projr (Work_init untitled_work_xml sample_rules False)) None
     = Inl NoTitleException \<and>
   getTitle (projr (Work_init untitled_work_xml sample_rules False)) (Some ''en'')
     = Inl NoTitleException"
proof -
  let ?r = "Work_init untitled_work_xml sample_rules False"
  have no: "xml_findall untitled_work_xml (cts ''title'') = []"
    by code_simp
  have ok: "\<not> isl ?r" by code_simp
  then have "?r = Inr (projr ?r)" by simp
  with Work_without_title [OF no, of sample_rules] ok show ?thesis
    by metis
qed

text \<open>
  C10: when the XML of a Work has a title element without \<open>xml:lang\<close>, the text of that
  title (of the last one, if there are several) is stored in the title mapping under the
  key \<open>None\<close>, and \<open>getTitle()\<close> without a language returns it, whether or not there is
  an \<open>en\<close> or \<open>eng\<close> title.
\<close>

theorem getTitle_without_lang:
  assumes "Work_init xml rewriting_rules strict = Inr w"
    and "filter (\<lambda>t. xml_get t xml_lang = None) (xml_findall xml (cts ''title'')) = ts"
    and "ts \<noteq> []"
  shows "map_of (work_titles w) None = Some (etext (last ts)) \<and>
         getTitle w None = Inr (etext (last ts))"
proof -
  have titles: "work_titles w = titles_loop (xml_findall xml (cts ''title''))"
    using assms(1) by (rule Work_init_titles)
  have stored: "map_of (work_titles w) None = Some (etext (last ts))"
    using assms(2,3) by (simp add: titles map_of_titles_loop)
  then have "work_titles w \<noteq> []" by auto
  from getTitle_resolution [OF this] stored
  have "getTitle w None = Inr (etext (last ts))" by blast
  with stored show ?thesis by simp
qed

theorem getTitle_without_lang_witness:
  "getTitle (projr (Work_init unlabelled_title_work_xml [] False)) None = Inr (Some ''Ilias'') \<and>
   getTitle (projr (Work_init unlabelled_title_work_xml [] False)) (Some ''de'')
     = Inr (Some ''Iliad'')"
proof -
  let ?r = "Work_init unlabelled_title_work_xml [] False"
  have "\<not> isl ?r" by code_simp
  then have r: "?r = Inr (projr ?r)" by simp
  have ts: "filter (\<lambda>t. xml_get t xml_lang = None)
      (xml_findall unlabelled_title_work_xml (cts ''title''))
      = [Element (cts ''title'') [] (Some ''Ilias'') []]"
    by code_simp
  from getTitle_without_lang [OF r ts]
  have "getTitle (projr ?r) None = Inr (Some ''Ilias'')" by simp
  moreover have "getTitle (projr ?r) (Some ''de'') = Inr (Some ''Iliad'')"
    by code_simp
  ultimately show ?thesis by simp
qed

section \<open>The inventory tree\<close>

lemma map_err_Inr:
  "map_err f xs = Inr ys \<Longrightarrow> y \<in> set ys \<Longrightarrow> \<exists>x \<in> set xs. f x = Inr y"
proof (induction xs arbitrary: ys)
  case Nil
  then show ?case by simp
next
  case (Cons x xs)
  from Cons.prems(1) obtain z zs where
    z: "f x = Inr z" and zs: "map_err f xs = Inr zs" and ys: "ys = z # zs"
    by (auto simp: ebind_def split: sum.splits)
  show ?case
  proof (cases "y = z")
    case True
    with z show ?thesis by auto
  next
    case False
    with Cons.prems(2) ys have "y \<in> set zs" by simp
    from Cons.IH [OF zs this] show ?thesis by auto
  qed
qed

lemma map_err_raises:
  "xs \<noteq> [] \<Longrightarrow> \<forall>x \<in> set xs. f x = Inl e \<Longrightarrow> map_err f xs = Inl e"
  by (cases xs) (auto simp: ebind_def)

lemma Citation_init_strict:
  "list_all (\<lambda>c. cit_strict c = strict) (levels (Citation_init xml namespaces strict))"
proof (induction xml namespaces strict rule: Citation_init.induct)
  case (1 xml namespaces strict)
  show ?case
  proof (cases "xml_find xml (cts ''citation'')")
    case None
    then show ?thesis
      by (subst Citation_init.simps) simp
  next
    case (Some children)
    from "1.IH" [OF Some] Some show ?thesis
      by (subst Citation_init.simps) simp
  qed
qed

lemma Document_init_strict:
  assumes "Document_init xml rules strict = Inr d"
  shows "doc_strict d = strict \<and>
         list_all (\<lambda>c. cit_strict c = strict) (levels (doc_citation d))"
proof -
  from assms obtain db where db: "xml_get xml ''docname'' = Some db"
    by (cases "xml_get xml ''docname''")
      (auto simp: Document_init_def getFilePath_def ebind_def split: if_splits)
  with assms have "(case xml_find xml (cts ''validate'') of
             None \<Rightarrow> Inl AttributeError
           | Some validate \<Rightarrow>
               ebind (retrieveNamespace xml) (\<lambda>namespaces.
               (case xml_find xml (cts ''citationMapping'') of
                  None \<Rightarrow> Inl AttributeError
                | Some mapping \<Rightarrow>
                    (case xml_find mapping (cts ''citation'') of
                       None \<Rightarrow> Inl TypeError
                     | Some citation \<Rightarrow>
                         Inr \<lparr> doc_rewriting_rules = rules,
                               doc_strict = strict,
                               doc_db = xml_get xml ''docname'',
                               doc_path = replace_all db rules,
                               doc_filename = basename (replace_all db rules),
                               doc_validate = xml_get validate ''schema'',
                               doc_namespaces = namespaces,
                               doc_citation = Citation_init citation namespaces strict \<rparr>)))) = Inr d"
    by (simp add: Document_init_def getFilePath_def ebind_def)
  then obtain namespaces citation where
    "doc_strict d = strict" "doc_citation d = Citation_init citation namespaces strict"
    by (auto simp: ebind_def split: option.splits sum.splits)
  then show ?thesis by (simp add: Citation_init_strict)
qed

lemma Text_init_strict:
  assumes "Text_init cls xml rules strict = Inr t"
  shows "text_strict t = strict \<and>
         list_all (\<lambda>c. cit_strict c = doc_strict (text_document t))
           (levels (doc_citation (text_document t)))"
proof -
  from assms obtain titles document online where
    doc: "Document_init online rules False = Inr document"
    and t: "text_strict t = strict" "text_document t = document"
    by (auto simp: Text_init_def ebind_def split: sum.splits option.splits)
  from Document_init_strict [OF doc] t show ?thesis by simp
qed

lemma Work_init_texts:
  assumes "Work_init xml rules strict = Inr w"
    and "t \<in> set (work_editions w) \<union> set (work_translations w)"
  shows "\<exists>cls x. Text_init cls x rules False = Inr t"
proof -
  from assms(1) obtain eds trs where
    e: "retrieveEditions xml rules = Inr eds" and tr: "retrieveTranslations xml rules = Inr trs"
    and w: "work_editions w = eds" "work_translations w = trs"
    by (auto simp: Work_init_def ebind_def split: sum.splits)
  from assms(2) w consider "t \<in> set eds" | "t \<in> set trs" by auto
  then show ?thesis
  proof cases
    case 1
    from map_err_Inr [OF e [unfolded retrieveEditions_def] 1] show ?thesis by blast
  next
    case 2
    from map_err_Inr [OF tr [unfolded retrieveTranslations_def] 2] show ?thesis by blast
  qed
qed

lemma TextGroup_init_works:
  assumes "TextGroup_init xml rules strict = Inr g" and "w \<in> set (tg_works g)"
  shows "\<exists>x. Work_init x rules False = Inr w"
proof -
  from assms(1) obtain works where
    ws: "map_err (\<lambda>work. Work_init work rules False) (xml_findall xml (cts ''work'')) = Inr works"
    and g: "tg_works g = works"
    by (auto simp: TextGroup_init_def ebind_def split: sum.splits option.splits)
  from assms(2) g have "w \<in> set works" by simp
  from map_err_Inr [OF ws this] show ?thesis by blast
qed

lemma Inventory_init_groups:
  assumes "Inventory_init xml rules strict = Inr i"
  shows "inv_strict i = strict"
    and "g \<in> set (inv_textGroups i) \<Longrightarrow> \<exists>x. TextGroup_init x rules False = Inr g"
proof -
  from assms obtain groups where
    gs: "map_err (\<lambda>group. TextGroup_init group rules False)
           (xml_findall xml (cts ''textgroup'')) = Inr groups"
    and i: "inv_strict i = strict" "inv_textGroups i = groups"
    by (auto simp: Inventory_init_def ebind_def split: sum.splits)
  show "inv_strict i = strict" by (rule i(1))
  show "\<exists>x. TextGroup_init x rules False = Inr g" if "g \<in> set (inv_textGroups i)"
    using map_err_Inr [OF gs] that i(2) by blast
qed

lemma getTexts_member:
  assumes "t \<in> set (getTexts i instanceOf)"
  shows "\<exists>g \<in> set (inv_textGroups i). \<exists>w \<in> set (tg_works g).
           t \<in> set (work_editions w) \<union> set (work_translations w)"
  using assms by (auto simp: getTexts_def split: if_splits)

text \<open>
  C3, as the code has it. An Inventory carries the strictness flag it was given. Every
  Edition and Translation under it is built with \<open>strict=False\<close>, which
  \<open>Work._retrieveEditions\<close> and \<open>Work._retrieveTranslations\<close> write out in the call,
  whatever the flag of the Inventory. Inheritance holds from a Document downwards: every
  Citation of a Document's chain carries the flag of that Document.
\<close>

theorem strict_propagation:
  assumes "Inventory_init xml rewriting_rules strict = Inr i"
  shows "inv_strict i = strict \<and>
         (\<forall>t \<in> set (getTexts i [Edition, Translation]).
            \<not> text_strict t \<and>
            list_all (\<lambda>c. cit_strict c = doc_strict (text_document t))
              (levels (doc_citation (text_document t))))"
proof -
  have "\<not> text_strict t \<and>
        list_all (\<lambda>c. cit_strict c = doc_strict (text_document t))
          (levels (doc_citation (text_document t)))"
    if "t \<in> set (getTexts i [Edition, Translation])" for t
  proof -
    from getTexts_member [OF that] obtain g w where
      g: "g \<in> set (inv_textGroups i)" and w: "w \<in> set (tg_works g)"
      and t: "t \<in> set (work_editions w) \<union> set (work_translations w)"
      by blast
    from Inventory_init_groups(2) [OF assms g] obtain gx where
      "TextGroup_init gx rewriting_rules False = Inr g" by blast
    from TextGroup_init_works [OF this w] obtain wx where
      "Work_init wx rewriting_rules False = Inr w" by blast
    from Work_init_texts [OF this t] obtain cls tx where
      "Text_init cls tx rewriting_rules False = Inr t" by blast
    from Text_init_strict [OF this] show ?thesis by simp
  qed
  with Inventory_init_groups(1) [OF assms] show ?thesis by blast
qed

text \<open>
  The claim C3 as stated fails on the sample inventory built with \<open>strict=True\<close>: the Inventory is strict, its TextGroup
  is not, so the flag of the root does not hold in the whole subtree.
\<close>

theorem strict_not_inherited:
  "\<not> isl (Inventory_init sample_inventory_xml sample_rules True) \<and>
   inv_strict (projr (Inventory_init sample_inventory_xml sample_rules True)) \<and>
   map tg_strict (inv_textGroups (projr (Inventory_init sample_inventory_xml sample_rules True)))
     = [False] \<and>
   \<not> subtree_strict (projr (Inventory_init sample_inventory_xml sample_rules True))"
  by code_simp

theorem strict_propagation_witness:
  "inv_strict (projr (Inventory_init sample_inventory_xml sample_rules True)) \<and>
   map text_strict
     (getTexts (projr (Inventory_init sample_inventory_xml sample_rules True))
        [Edition, Translation]) = [False]"
proof -
  let ?r = "Inventory_init sample_inventory_xml sample_rules True"
  have "\<not> isl ?r" by code_simp
  then have r: "?r = Inr (projr ?r)" by simp
  have n: "length (getTexts (projr ?r) [Edition, Translation]) = 1" by code_simp
  then obtain t where t: "getTexts (projr ?r) [Edition, Translation] = [t]"
    by (cases "getTexts (projr ?r) [Edition, Translation]") auto
  from strict_propagation [OF r] t show ?thesis by simp
qed

text \<open>
  C1, evaluated on the code. \<open>testTextsCitation\<close> calls \<open>doc.document.testCitation\<close> with
  the keyword \<open>ignore_replication\<close>, which \<open>Document.testCitation(self)\<close> does not accept:
  the call raises \<open>TypeError\<close> at the first text, so the method returns a list only for an
  inventory without texts. On the sample inventory, which has one edition, it raises,
  while \<open>testCitation\<close> called without the keyword returns the result of the document.
\<close>

theorem testTextsCitation_unexpected_keyword:
  "testTextsCitation parse findall self ignore_replication =
     (if getTexts self [Edition, Translation] = [] then Inr [] else Inl TypeError) \<and>
   length (getTexts (projr (Inventory_init sample_inventory_xml sample_rules False))
     [Edition, Translation]) = 1 \<and>
   testTextsCitation sample_parse sample_findall
     (projr (Inventory_init sample_inventory_xml sample_rules False)) False = Inl TypeError \<and>
   map (\<lambda>doc. map_sum id fst (testCitation sample_parse sample_findall (text_document doc) []))
     (getTexts (projr (Inventory_init sample_inventory_xml sample_rules False))
        [Edition, Translation]) = [Inr [True, False]]"
proof -
  have "testTextsCitation parse findall self ignore_replication =
     (if getTexts self [Edition, Translation] = [] then Inr [] else Inl TypeError)"
    unfolding testTextsCitation_def
    by (cases "getTexts self [Edition, Translation]")
      (simp_all add: testCitation_def ebind_def)
  moreover have "length (getTexts (projr (Inventory_init sample_inventory_xml sample_rules False))
     [Edition, Translation]) = 1"
    by code_simp
  moreover have "testTextsCitation sample_parse sample_findall
     (projr (Inventory_init sample_inventory_xml sample_rules False)) False = Inl TypeError"
    by code_simp
  moreover have "map (\<lambda>doc. map_sum id fst
        (testCitation sample_parse sample_findall (text_document doc) []))
     (getTexts (projr (Inventory_init sample_inventory_xml sample_rules False))
        [Edition, Translation]) = [Inr [True, False]]"
    by code_simp
  ultimately show ?thesis by simp
qed

end
